theory Spec2Isabelle
  imports Main
begin

section \<open>Results (common/result.hpp, common/result.cpp)\<close>

text \<open>
  A \<open>Result\<close> carries a numeric code and an optional message (a null
  \<open>shared_ptr\<close> is \<open>None\<close>). Only the codes that the thread
  controller returns are listed.
\<close>

record Result =
  code :: int
  message :: "string option"

definition SUCCESS_CODE :: int where "SUCCESS_CODE = 0"
definition INVALID_RESULT_CODE :: int where "INVALID_RESULT_CODE = 1"
definition DEFAULT_ERROR_CODE :: int where "DEFAULT_ERROR_CODE = INVALID_RESULT_CODE"
definition TIMED_OUT_CODE :: int where "TIMED_OUT_CODE = - 600"
definition THREAD_RESTRICTION_CODE :: int where "THREAD_RESTRICTION_CODE = - 1700"
definition NOT_INIT_CODE :: int where "NOT_INIT_CODE = - 2000"
definition INVALID_ARGUMENT_CODE :: int where "INVALID_ARGUMENT_CODE = - 3000"
definition SHUTTING_DOWN_CODE :: int where "SHUTTING_DOWN_CODE = - 3100"
definition DEADLOCK_AVERTED_CODE :: int where "DEADLOCK_AVERTED_CODE = - 3200"
definition NOT_IMPLEMENTED_CODE :: int where "NOT_IMPLEMENTED_CODE = - 3300"
definition STATE_ALREADY_EFFECTIVE_CODE :: int where "STATE_ALREADY_EFFECTIVE_CODE = - 3400"
definition RESOURCE_UNAVAILABLE_CODE :: int where "RESOURCE_UNAVAILABLE_CODE = - 3500"
definition INTERRUPTED_OPERATION_CODE :: int where "INTERRUPTED_OPERATION_CODE = - 3600"

definition Result_of :: "int \<Rightarrow> Result" where
  "Result_of c = \<lparr>code = c, message = None\<rparr>"

definition SUCCESS :: Result where "SUCCESS = Result_of SUCCESS_CODE"
definition INVALID_RESULT :: Result where "INVALID_RESULT = Result_of INVALID_RESULT_CODE"
definition TIMED_OUT :: Result where "TIMED_OUT = Result_of TIMED_OUT_CODE"
definition THREAD_RESTRICTION :: Result where
  "THREAD_RESTRICTION = Result_of THREAD_RESTRICTION_CODE"
definition NOT_INIT :: Result where "NOT_INIT = Result_of NOT_INIT_CODE"
definition INVALID_ARGUMENT :: Result where "INVALID_ARGUMENT = Result_of INVALID_ARGUMENT_CODE"
definition SHUTTING_DOWN :: Result where "SHUTTING_DOWN = Result_of SHUTTING_DOWN_CODE"
definition DEADLOCK_AVERTED :: Result where "DEADLOCK_AVERTED = Result_of DEADLOCK_AVERTED_CODE"
definition NOT_IMPLEMENTED :: Result where "NOT_IMPLEMENTED = Result_of NOT_IMPLEMENTED_CODE"
definition STATE_ALREADY_EFFECTIVE :: Result where
  "STATE_ALREADY_EFFECTIVE = Result_of STATE_ALREADY_EFFECTIVE_CODE"
definition RESOURCE_UNAVAILABLE :: Result where
  "RESOURCE_UNAVAILABLE = Result_of RESOURCE_UNAVAILABLE_CODE"
definition INTERRUPTED_OPERATION :: Result where
  "INTERRUPTED_OPERATION = Result_of INTERRUPTED_OPERATION_CODE"

text \<open>
  \<open>Result::operator==\<close>: the codes decide, except that two results with the
  default error code are compared by their messages.
\<close>

definition res_eq :: "Result \<Rightarrow> Result \<Rightarrow> bool" where
  "res_eq self arg =
     (if DEFAULT_ERROR_CODE = code arg \<and> DEFAULT_ERROR_CODE = code self
      then message arg = message self
      else code arg = code self)"

definition is_error :: "Result \<Rightarrow> bool" where
  "is_error r = (INVALID_RESULT_CODE \<noteq> code r \<and> SUCCESS_CODE \<noteq> code r)"

definition is_success :: "Result \<Rightarrow> bool" where
  "is_success r = (SUCCESS_CODE = code r)"

definition has_message :: "Result \<Rightarrow> bool" where
  "has_message r = (case message r of None \<Rightarrow> False | Some m \<Rightarrow> m \<noteq> [])"

text \<open>\<open>Result::Prepend\<close>: the code is kept, the text goes in front of the message.\<close>

definition Prepend :: "string \<Rightarrow> Result \<Rightarrow> Result" where
  "Prepend msg r =
     (if has_message r then \<lparr>code = code r, message = Some (msg @ '': '' @ the (message r))\<rparr>
      else \<lparr>code = code r, message = Some msg\<rparr>)"

section \<open>The thread controller's data (common/thread.hpp)\<close>

datatype State = kInvalid | kInit | kGo | kIdle | kExiting | kExited

datatype CycleWait = kInvalidCycleWait | kAbsolute | kRelative | kIndefinite

datatype Blocking = kOff | kOn

datatype ProcStateResult = kContinue | kExit

text \<open>
  Durations and time points count nanoseconds in a signed 64-bit integer
  (\<open>std::chrono\<close>); signed overflow is undefined in C++, so they are integers
  here. \<open>Duration::Min()\<close> and \<open>TimePoint::Min()\<close> are the sentinels for
  "no time limit".
\<close>

type_synonym Duration = int
type_synonym TimePoint = int
type_synonym ThreadId = nat

definition Duration_Min :: Duration where "Duration_Min = - (2 ^ 63)"
definition TimePoint_Min :: TimePoint where "TimePoint_Min = - (2 ^ 63)"

text \<open>The condition variables of a \<open>UThread\<close>, and that of a multi-transition.\<close>

datatype cond =
    state_ready_cond | state_ready_none_waiting_cond | go_ready_cond | idle_ready_cond
  | go_cond | cycle_wait_skip_advance_cond | paused_cond | unpause_cond | multi_go_cond

datatype cv_status = no_timeout | timeout

text \<open>
  What a call does beyond its writes to the fields is kept in a log, in program
  order: notifications of condition variables, writes of \<open>requested_state_\<close>,
  calls of \<open>SetStateInternal\<close> (new state, state before) and rounds of listener
  invocations (with the arguments \<open>state_\<close>, \<open>prev_state_\<close> every listener gets).
\<close>

datatype event =
    NotifyOne cond
  | NotifyAll cond
  | WriteRequested State
  | SetState State State
  | Listeners State State

text \<open>
  Where the managed thread stands: not yet spawned, in the user's thread function
  (outside \<open>ProcState\<close>), parked in one of the condition waits of \<open>ProcState\<close>,
  stuck (the state switch of \<open>ProcState\<close> met a request it has no case for, and its
  loop cannot end), or returned from \<open>_mainThreadFunc\<close>. A pause parks the thread in
  \<open>ConsiderPause_locked\<close>, which \<open>ProcState\<close> calls at five places.
\<close>

datatype pause_site = AtExiting | AtSkip | AtTimeout | AtNoWait | AtEnd

datatype pc =
    NotStarted | Body | CycleWaitPark | IdlePark | BarrierPark | PausePark pause_site
  | Stuck | Finished

record UThread =
  name :: string
  thread :: "ThreadId option"
  cycle_count :: int
  state :: State
  requested_state :: State
  prev_state :: State
  cycle_wait_type :: CycleWait
  cycle_wait_period :: Duration
  cycle_wait_changed :: bool
  cycle_wait_skip_count :: int
  cycle_wait_skip_orig_state :: State
  prev_cycle_time_point :: TimePoint
  dbg_paused_count :: int
  is_joined_with_thread :: bool
  is_paused :: bool
  is_pause_pending :: bool
  is_between_cycles :: bool
  in_progress :: bool
  pending_count :: int
  thread_func_result :: Result
  events :: "event list"
  pc :: pc
  procstate_res :: ProcStateResult
  handle_state_changed :: bool
  sleep_period :: Duration
  returned :: "ProcStateResult option"

text \<open>
  \<open>thread\<close> is \<open>thread_\<close> (the id of the native thread, \<open>None\<close> for a null
  pointer); \<open>in_progress\<close> is \<open>set_state_multiple_info_.in_progress\<close> and
  \<open>pending_count\<close> the counter its \<open>pending_count_p\<close> points to. The fields from
  \<open>events\<close> on are not fields of the class: the log, the managed thread's position,
  the locals of its running \<open>ProcState\<close> call that live across a wait, and the value
  its last \<open>ProcState\<close> call returned. The mutexes, the owner id of the state lock,
  \<open>state_ready_wait_count_\<close>, \<open>lwpid_\<close>, the time stamps per state and the listener
  registry are left out: every function below is one section under the state lock.
  Within one section the clock is read once. The listeners are taken to observe
  only: they do not call the operations of the thread they listen to.
\<close>

definition thread_exists :: "UThread \<Rightarrow> bool" where
  "thread_exists t = (thread t \<noteq> None)"

definition is_state_changing :: "UThread \<Rightarrow> bool" where
  "is_state_changing t = (kInvalid \<noteq> requested_state t)"

definition is_current_thread :: "ThreadId \<Rightarrow> UThread \<Rightarrow> bool" where
  "is_current_thread caller t =
     (case thread t of Some i \<Rightarrow> caller = i | None \<Rightarrow> False)"

definition is_available :: "UThread \<Rightarrow> bool" where
  "is_available t =
     (kExiting \<noteq> state t \<and> kExited \<noteq> state t
      \<and> kExiting \<noteq> requested_state t \<and> kExited \<noteq> requested_state t)"

definition quote :: string where "quote = [CHR 0x27]"

fun StateToString :: "State \<Rightarrow> string" where
  "StateToString kInvalid = ''Invalid''"
| "StateToString kInit = ''Initializing''"
| "StateToString kGo = ''Run''"
| "StateToString kIdle = ''Idle''"
| "StateToString kExiting = ''Exiting''"
| "StateToString kExited = ''Exited''"

subsection \<open>Logged effects\<close>

definition emit :: "event \<Rightarrow> UThread \<Rightarrow> UThread" where
  "emit e t = t\<lparr>events := events t @ [e]\<rparr>"

definition notify_one :: "cond \<Rightarrow> UThread \<Rightarrow> UThread" where
  "notify_one c t = emit (NotifyOne c) t"

definition notify_all :: "cond \<Rightarrow> UThread \<Rightarrow> UThread" where
  "notify_all c t = emit (NotifyAll c) t"

definition set_requested_state :: "State \<Rightarrow> UThread \<Rightarrow> UThread" where
  "set_requested_state s t = emit (WriteRequested s) (t\<lparr>requested_state := s\<rparr>)"

definition SetStateInternal :: "State \<Rightarrow> UThread \<Rightarrow> UThread" where
  "SetStateInternal new_state t =
     emit (SetState new_state (state t)) (t\<lparr>prev_state := state t, state := new_state\<rparr>)"

definition invoke_listeners :: "UThread \<Rightarrow> UThread" where
  "invoke_listeners t = emit (Listeners (state t) (prev_state t)) t"

section \<open>Construction and start (common/thread.cpp)\<close>

text \<open>
  A call either returns a result, or enters a wait on a condition variable, which
  gives up the state lock (\<open>Waits\<close>), or runs a loop that cannot end
  (\<open>Spins\<close>).
\<close>

datatype outcome = Returns Result | Waits cond | Spins

text \<open>
  \<open>UThread::Init\<close>, with the name the constructor sets and the construction time
  that the default constructor of \<open>prev_cycle_time_point_\<close> reads from the clock.
\<close>

definition Init :: "string \<Rightarrow> TimePoint \<Rightarrow> UThread" where
  "Init thread_name created =
     \<lparr>name = thread_name, thread = None, cycle_count = 0,
      state = kInvalid, requested_state = kInvalid, prev_state = kInvalid,
      cycle_wait_type = kAbsolute, cycle_wait_period = 0, cycle_wait_changed = False,
      cycle_wait_skip_count = 0, cycle_wait_skip_orig_state = kInvalid,
      prev_cycle_time_point = created, dbg_paused_count = 0,
      is_joined_with_thread = False, is_paused = False, is_pause_pending = False,
      is_between_cycles = False, in_progress = False, pending_count = 0,
      thread_func_result = INVALID_RESULT, events = [], pc = NotStarted,
      procstate_res = kContinue, handle_state_changed = False, sleep_period = 0,
      returned = None\<rparr>"

text \<open>
  \<open>InitThread\<close> spawns the native thread (with id \<open>tid\<close>), which enters the user's
  function. With blocking on, the caller then waits in \<open>StateWait(kIdle)\<close> for
  the first checkpoint, and \<open>Start\<close> returns success after that wait.
\<close>

definition InitThread :: "ThreadId \<Rightarrow> UThread \<Rightarrow> UThread" where
  "InitThread tid t =
     (set_requested_state kIdle (t\<lparr>state := kInit\<rparr>))\<lparr>thread := Some tid, pc := Body\<rparr>"

definition Start :: "ThreadId \<Rightarrow> Blocking \<Rightarrow> UThread \<Rightarrow> outcome \<times> UThread" where
  "Start tid block t =
     (if thread_exists t
      then (Returns (Prepend ''UThread has already been started'' STATE_ALREADY_EFFECTIVE), t)
      else (if kOn = block then Waits idle_ready_cond else Returns SUCCESS, InitThread tid t))"

section \<open>Pause and unpause\<close>

definition Pause :: "UThread \<Rightarrow> outcome \<times> UThread" where
  "Pause t =
     (if \<not> thread_exists t then (Returns (Prepend ''UThread has not been started'' NOT_INIT), t)
      else if is_paused t
      then (Returns (Prepend ''Thread is already paused'' STATE_ALREADY_EFFECTIVE), t)
      else if \<not> is_available t
      then (Returns (Prepend ''Thread has exited'' RESOURCE_UNAVAILABLE), t)
      else let t1 = t\<lparr>is_pause_pending := True\<rparr> in
        if kGo = state t1 \<and> is_between_cycles t1 then (Waits paused_cond, t1)
        else (Returns SUCCESS, t1))"

definition Unpause :: "UThread \<Rightarrow> Result \<times> UThread" where
  "Unpause t =
     (if \<not> thread_exists t then (Prepend ''UThread has not been started'' NOT_INIT, t)
      else if \<not> is_paused t then
        (if is_pause_pending t then (SUCCESS, t\<lparr>is_pause_pending := False\<rparr>)
         else (Prepend ''Thread isn't paused'' STATE_ALREADY_EFFECTIVE, t))
      else (SUCCESS, notify_one unpause_cond t))"

section \<open>Requesting a state\<close>

text \<open>
  The condition variable a caller waits on for a state (in \<open>StateWaitFor\<close>):
  \<open>kIdle\<close> and \<open>kGo\<close> have one of their own.
\<close>

definition state_cond :: "State \<Rightarrow> cond" where
  "state_cond desired_state =
     (case desired_state of kIdle \<Rightarrow> idle_ready_cond | kGo \<Rightarrow> go_ready_cond
      | _ \<Rightarrow> state_ready_cond)"

text \<open>
  \<open>RequestState(newstate, timeout)\<close> up to its return or its first wait. The
  caller is named by its thread id. A zero timeout does not block,
  \<open>Duration::Min()\<close> blocks without limit. The call tests \<open>thread_exists\<close> and
  the target before it takes the state lock; \<open>RequestState_locked\<close> is what it does
  under the lock.
\<close>

definition RequestState_locked ::
    "ThreadId \<Rightarrow> State \<Rightarrow> Duration \<Rightarrow> UThread \<Rightarrow> outcome \<times> UThread" where
  "RequestState_locked caller newstate tmo t =
     (if kExited = state t
      then (Returns (Prepend (''Thread has exited, ignoring request for new state '' @ quote
                       @ StateToString newstate @ quote) RESOURCE_UNAVAILABLE), t)
      else if kExiting = state t then
        (if kExiting = newstate then (Returns SUCCESS, t)
         else (Returns (Prepend (''Thread is exiting, ignoring request for new state '' @ quote
                          @ StateToString newstate @ quote) SHUTTING_DOWN), t))
      else
        let t1 = (if is_paused t then snd (Unpause t) else t) in
        if (kExiting = requested_state t1 \<or> kExited = requested_state t1) \<and> kExiting \<noteq> newstate
        then (Returns (Prepend (''Thread is exiting, cannot request new state '' @ quote
                         @ StateToString newstate @ quote) SHUTTING_DOWN), t1)
        else if newstate = state t1
        then (Returns SUCCESS, notify_all state_ready_cond (set_requested_state kInvalid t1))
        else if 0 = tmo
        then (Returns SUCCESS, notify_one go_cond (set_requested_state newstate t1))
        else if is_current_thread caller t1
        then (Returns (Prepend (''New thread state requested with blocking enabled, but target''
                         @ '' thread == current thread'') DEADLOCK_AVERTED), t1)
        else (Waits (state_cond newstate),
              notify_one go_cond (set_requested_state newstate t1)))"

definition RequestState :: "ThreadId \<Rightarrow> State \<Rightarrow> Duration \<Rightarrow> UThread \<Rightarrow> outcome \<times> UThread" where
  "RequestState caller newstate tmo t =
     (if \<not> thread_exists t then (Returns (Prepend ''UThread has not been started'' NOT_INIT), t)
      else if kInit = newstate
      then (Returns (Prepend (quote @ ''Init'' @ quote @ '' thread state cannot be directly requested'')
                       INVALID_ARGUMENT), t)
      else if kExited = newstate
      then (Returns (Prepend (quote @ ''Exited'' @ quote @ '' thread state cannot be directly requested'')
                       INVALID_ARGUMENT), t)
      else RequestState_locked caller newstate tmo t)"

text \<open>The overload that takes \<open>Blocking\<close>.\<close>

definition RequestState_blocking ::
    "ThreadId \<Rightarrow> State \<Rightarrow> Blocking \<Rightarrow> UThread \<Rightarrow> outcome \<times> UThread" where
  "RequestState_blocking caller newstate block t =
     (if kOn = block then RequestState caller newstate Duration_Min t
      else RequestState caller newstate 0 t)"

text \<open>
  A blocked caller that wakes runs the head of the wait loop again: it returns when
  the state is there or the thread is going down, and otherwise writes its request
  once more and waits again.
\<close>

definition RequestState_again :: "State \<Rightarrow> UThread \<Rightarrow> outcome \<times> UThread" where
  "RequestState_again newstate t =
     (if newstate = state t then (Returns SUCCESS, t)
      else if kExiting = state t
      then (Returns (Prepend (''Thread is exiting, canceling request for new state '' @ quote
                       @ StateToString newstate @ quote) SHUTTING_DOWN), t)
      else if kExited = state t then
        (if kExiting \<noteq> newstate
         then (Returns (Prepend (''Thread has exited, canceling request for new state '' @ quote
                          @ StateToString newstate @ quote) RESOURCE_UNAVAILABLE), t)
         else (Returns SUCCESS, t))
      else (Waits (state_cond newstate),
            notify_one go_cond (set_requested_state newstate t)))"

definition Run :: "ThreadId \<Rightarrow> Blocking \<Rightarrow> UThread \<Rightarrow> outcome \<times> UThread" where
  "Run caller block t = RequestState_blocking caller kGo block t"

definition Idle :: "ThreadId \<Rightarrow> Blocking \<Rightarrow> UThread \<Rightarrow> outcome \<times> UThread" where
  "Idle caller block t = RequestState_blocking caller kIdle block t"

section \<open>Condition waits\<close>

text \<open>
  The result of \<open>StateCondWaitUntil\<close> and \<open>StateCondWaitFor\<close> once the wait is
  over; \<open>waited\<close> says how the condition variable's wait ended. A zero period does
  not wait at all.
\<close>

definition StateCondWaitUntil :: "TimePoint \<Rightarrow> cv_status \<Rightarrow> UThread \<Rightarrow> Result" where
  "StateCondWaitUntil timeout_time waited t =
     (if \<not> thread_exists t then Prepend ''UThread has not been started'' NOT_INIT
      else if TimePoint_Min = timeout_time then SUCCESS
      else if waited = timeout
      then Prepend ''Timed out while waiting for thread condition'' TIMED_OUT
      else SUCCESS)"

definition StateCondWaitFor :: "Duration \<Rightarrow> TimePoint \<Rightarrow> cv_status \<Rightarrow> UThread \<Rightarrow> Result" where
  "StateCondWaitFor wait_period now waited t =
     (if 0 = wait_period then SUCCESS
      else if Duration_Min = wait_period then StateCondWaitUntil TimePoint_Min waited t
      else StateCondWaitUntil (now + wait_period) waited t)"

definition JoinInternal :: "UThread \<Rightarrow> UThread" where
  "JoinInternal t =
     (if \<not> is_joined_with_thread t \<and> thread t \<noteq> None
      then t\<lparr>is_joined_with_thread := True\<rparr> else t)"

text \<open>
  \<open>StateWaitFor\<close>: the head of its loop, and what it does when its wait is over.
  With a zero timeout the wait returns at once; for a state other than
  \<open>kIdle\<close> and \<open>kGo\<close> the loop then runs on with the state lock held.
\<close>

definition StateWaitFor_loop :: "State \<Rightarrow> Duration \<Rightarrow> UThread \<Rightarrow> outcome \<times> UThread" where
  "StateWaitFor_loop desired_state tmo t =
     (if state t = desired_state
      then (Returns SUCCESS, if kExited = state t then JoinInternal t else t)
      else if kExited = state t
      then (Returns (Prepend ''Thread has exited'' RESOURCE_UNAVAILABLE), JoinInternal t)
      else if kExiting = state t \<and> kExiting \<noteq> desired_state \<and> kExited \<noteq> desired_state
      then (Returns (Prepend ''Thread is exiting'' SHUTTING_DOWN), t)
      else if 0 = tmo then
        (if kIdle = desired_state \<or> kGo = desired_state then (Returns SUCCESS, t)
         else (Spins, t))
      else (Waits (state_cond desired_state), t))"

definition StateWaitFor :: "ThreadId \<Rightarrow> State \<Rightarrow> Duration \<Rightarrow> UThread \<Rightarrow> outcome \<times> UThread" where
  "StateWaitFor caller desired_state tmo t =
     (if \<not> thread_exists t then (Returns (Prepend ''UThread has not been started'' NOT_INIT), t)
      else if kInit = desired_state
      then (Returns (Prepend (''Cannot wait for '' @ quote @ ''Init'' @ quote @ '' thread state'')
                       INVALID_ARGUMENT), t)
      else if is_current_thread caller t
      then (Returns (Prepend ''A thread cannot call UThread::StateWait() on itself''
                       THREAD_RESTRICTION), t)
      else StateWaitFor_loop desired_state tmo t)"

definition StateWaitFor_woken ::
    "State \<Rightarrow> Duration \<Rightarrow> TimePoint \<Rightarrow> cv_status \<Rightarrow> UThread \<Rightarrow> outcome \<times> UThread" where
  "StateWaitFor_woken desired_state tmo now waited t =
     (if res_eq TIMED_OUT (StateCondWaitFor tmo now waited t) then (Returns TIMED_OUT, t)
      else if kIdle = desired_state \<or> kGo = desired_state
      then (Returns SUCCESS, if kExited = state t then JoinInternal t else t)
      else StateWaitFor_loop desired_state tmo t)"

definition StateWait :: "ThreadId \<Rightarrow> State \<Rightarrow> UThread \<Rightarrow> outcome \<times> UThread" where
  "StateWait caller desired_state t = StateWaitFor caller desired_state Duration_Min t"

text \<open>
  \<open>RequestState\<close> after its wait in \<open>StateWaitFor\<close> or \<open>StateWait\<close> returned
  \<open>res\<close>: \<open>remaining\<close> is the time left before the wait, \<open>elapsed\<close> the time the
  wait took.
\<close>

definition RequestState_woken ::
    "State \<Rightarrow> Duration \<Rightarrow> Duration \<Rightarrow> Duration \<Rightarrow> Result \<Rightarrow> UThread \<Rightarrow> outcome \<times> UThread" where
  "RequestState_woken newstate tmo remaining elapsed res t =
     (if tmo \<noteq> Duration_Min then
        (if \<not> res_eq SUCCESS res \<and> \<not> res_eq TIMED_OUT res
         then (Returns (Prepend
                 ''Error occurred while waiting for thread state to change (with timeout)'' res), t)
         else if res_eq TIMED_OUT res \<or> remaining - elapsed \<le> 0 then
           (if newstate = state t then (Returns SUCCESS, t)
            else (Returns (Prepend ''Timed out while waiting for thread to assume new state''
                             TIMED_OUT), t))
         else RequestState_again newstate t)
      else if \<not> res_eq SUCCESS res
      then (Returns (Prepend
              ''Error occurred while waiting for thread state to change (no timeout)'' res), t)
      else RequestState_again newstate t)"

section \<open>Exit, cycle stepping, sleep\<close>

definition Exit_wait :: "ThreadId \<Rightarrow> Blocking \<Rightarrow> UThread \<Rightarrow> outcome \<times> UThread" where
  "Exit_wait caller block t =
     (if kOn = block then
        (case StateWait caller kExited t of
           (Returns res, t') \<Rightarrow>
             if \<not> res_eq SUCCESS res
             then (Returns (Prepend ''Couldn't wait for UThread to exit'' res), t')
             else (Returns SUCCESS, t')
         | (w, t') \<Rightarrow> (w, t'))
      else (Returns SUCCESS, t))"

definition Exit :: "ThreadId \<Rightarrow> Blocking \<Rightarrow> UThread \<Rightarrow> outcome \<times> UThread" where
  "Exit caller block t =
     (if is_joined_with_thread t then (Returns SUCCESS, t)
      else if kExited \<noteq> state t then
        (if kExiting \<noteq> state t then
           (case RequestState_blocking caller kExiting block t of
              (Returns res, t') \<Rightarrow>
                if \<not> res_eq SUCCESS res \<and> \<not> res_eq RESOURCE_UNAVAILABLE res
                then (Returns (Prepend (''Couldn't change UThread state to '' @ quote
                                 @ ''exiting'' @ quote) res), t')
                else Exit_wait caller block t'
            | (w, t') \<Rightarrow> (w, t'))
         else Exit_wait caller block t)
      else (Returns SUCCESS, t))"

text \<open>
  \<open>RunNCycles\<close> returns in its first statement; the code below that statement
  is never run. \<open>RunOneCycle\<close> calls it with one cycle.
\<close>

definition RunNCycles :: "int \<Rightarrow> Blocking \<Rightarrow> UThread \<Rightarrow> Result \<times> UThread" where
  "RunNCycles n_cycles block t = (Prepend ''UThread::RunNCycles()'' NOT_IMPLEMENTED, t)"

definition RunOneCycle :: "Blocking \<Rightarrow> UThread \<Rightarrow> Result \<times> UThread" where
  "RunOneCycle block t = RunNCycles 1 block t"

text \<open>
  \<open>Sleep\<close> writes no field; its result depends on the thread at entry and on how
  the wait on \<open>go_cond_\<close> ended.
\<close>

definition Sleep :: "ThreadId \<Rightarrow> Duration \<Rightarrow> TimePoint \<Rightarrow> cv_status \<Rightarrow> UThread \<Rightarrow> Result" where
  "Sleep caller max_duration now waited t =
     (if \<not> thread_exists t then Prepend ''UThread has not been started'' NOT_INIT
      else if Some caller \<noteq> thread t
      then Prepend (''UThread::Sleep() can be invoked only by the UThread process''
                      @ '' on itself'') THREAD_RESTRICTION
      else if is_state_changing t
      then Prepend ''Thread state change is pending, not sleeping'' INTERRUPTED_OPERATION
      else if Duration_Min = max_duration then INTERRUPTED_OPERATION
      else let res = StateCondWaitFor max_duration now waited t in
        if \<not> res_eq TIMED_OUT res then Prepend ''Thread sleep was interrupted'' res
        else SUCCESS)"

section \<open>The checkpoint (ProcState)\<close>

text \<open>
  \<open>ProcState\<close> is run by the managed thread. It is cut at its condition waits:
  \<open>ProcState\<close> is the call up to its return or its first wait, and the
  \<open>_woken\<close> functions take it from the end of a wait to its return or its next
  wait. Assertions are not modelled (they are compiled out under \<open>NDEBUG\<close>); a
  run that stops at a failed assertion is a run of this model cut short.
\<close>

definition ProcState_return :: "ProcStateResult \<Rightarrow> UThread \<Rightarrow> UThread" where
  "ProcState_return r t = t\<lparr>pc := Body, returned := Some r\<rparr>"

text \<open>What follows each of the five calls of \<open>ConsiderPause_locked\<close>.\<close>

fun after_pause :: "pause_site \<Rightarrow> UThread \<Rightarrow> UThread" where
  "after_pause AtExiting t = ProcState_return kExit t"
| "after_pause AtSkip t =
     ProcState_return kContinue (t\<lparr>cycle_wait_skip_count := cycle_wait_skip_count t - 1\<rparr>)"
| "after_pause AtTimeout t = ProcState_return kContinue t"
| "after_pause AtNoWait t = ProcState_return kContinue t"
| "after_pause AtEnd t = ProcState_return (procstate_res t) t"

definition ConsiderPause_locked :: "pause_site \<Rightarrow> UThread \<Rightarrow> UThread" where
  "ConsiderPause_locked site t =
     (if is_pause_pending t
      then (notify_all paused_cond
              (t\<lparr>is_pause_pending := False, is_paused := True,
                 dbg_paused_count := dbg_paused_count t + 1\<rparr>))\<lparr>pc := PausePark site\<rparr>
      else after_pause site t)"

definition ConsiderPause_woken :: "pause_site \<Rightarrow> UThread \<Rightarrow> UThread" where
  "ConsiderPause_woken site t = after_pause site (t\<lparr>is_paused := False\<rparr>)"

text \<open>The end of \<open>ProcState\<close>: the listeners, if a state was applied, and the pause.\<close>

definition ProcState_finish :: "UThread \<Rightarrow> UThread" where
  "ProcState_finish t =
     (let t1 = (if handle_state_changed t
                then notify_all state_ready_cond (invoke_listeners t) else t)
      in ConsiderPause_locked AtEnd (t1\<lparr>is_between_cycles := False\<rparr>))"

text \<open>
  The barrier of a multi-transition: the thread decrements the shared counter and
  waits unless it is the last to arrive; \<open>Clear\<close> ends its part.
\<close>

definition Clear :: "UThread \<Rightarrow> UThread" where
  "Clear t = t\<lparr>in_progress := False\<rparr>"

definition ProcState_barrier :: "UThread \<Rightarrow> UThread" where
  "ProcState_barrier t =
     (if in_progress t then
        (let t1 = t\<lparr>pending_count := pending_count t - 1\<rparr> in
         if pending_count t1 \<noteq> 0 then t1\<lparr>pc := BarrierPark\<rparr>
         else ProcState_finish (Clear (notify_all multi_go_cond t1)))
      else ProcState_finish t)"

definition ProcState_barrier_woken :: "UThread \<Rightarrow> UThread" where
  "ProcState_barrier_woken t = ProcState_finish (Clear t)"

text \<open>The cases of the state switch.\<close>

definition apply_go :: "UThread \<Rightarrow> UThread" where
  "apply_go t =
     SetStateInternal kGo
       (notify_all go_ready_cond
          ((set_requested_state kInvalid t)\<lparr>handle_state_changed := True\<rparr>))"

definition apply_idle :: "UThread \<Rightarrow> UThread" where
  "apply_idle t =
     (notify_all idle_ready_cond
        (notify_all state_ready_cond
           (SetStateInternal kIdle
              ((set_requested_state kInvalid t)\<lparr>handle_state_changed := False\<rparr>))))
       \<lparr>pc := IdlePark\<rparr>"

definition apply_exiting :: "UThread \<Rightarrow> UThread" where
  "apply_exiting t =
     (set_requested_state kInvalid
        (SetStateInternal kExiting (t\<lparr>procstate_res := kExit\<rparr>)))
       \<lparr>handle_state_changed := True\<rparr>"

text \<open>
  The loop around the switch, run until the thread parks in \<open>kIdle\<close> or no
  request is left. An idle request met during a multi-transition is turned into a
  go request, and the loop comes round to the go case.
\<close>

definition apply_loop :: "UThread \<Rightarrow> UThread" where
  "apply_loop t =
     (case requested_state t of
        kGo \<Rightarrow> ProcState_barrier (apply_go t)
      | kIdle \<Rightarrow>
          if in_progress t then ProcState_barrier (apply_go (set_requested_state kGo t))
          else apply_idle t
      | kExiting \<Rightarrow> ProcState_barrier (apply_exiting t)
      | kInvalid \<Rightarrow> ProcState_barrier t
      | _ \<Rightarrow> t\<lparr>pc := Stuck\<rparr>)"

definition ProcState_apply :: "UThread \<Rightarrow> UThread" where
  "ProcState_apply t =
     (if requested_state t = state t
      then ProcState_barrier ((set_requested_state kInvalid t)\<lparr>is_between_cycles := False\<rparr>)
      else apply_loop t)"

definition apply_idle_woken :: "TimePoint \<Rightarrow> UThread \<Rightarrow> UThread" where
  "apply_idle_woken now t =
     (let t1 = t\<lparr>prev_cycle_time_point := now\<rparr>;
          t2 = (if kInvalid \<noteq> cycle_wait_skip_orig_state t1
                then t1\<lparr>cycle_wait_skip_count := cycle_wait_skip_count t1 - 1\<rparr> else t1)
      in apply_loop t2)"

text \<open>
  The cycle wait. The local \<open>sleep_period\<close> starts at zero and is assigned only
  for the relative and the absolute wait type.
\<close>

definition cycle_sleep_period :: "TimePoint \<Rightarrow> UThread \<Rightarrow> Duration" where
  "cycle_sleep_period now t =
     (if kIndefinite \<noteq> cycle_wait_type t then
        (if kRelative = cycle_wait_type t then cycle_wait_period t
         else if kAbsolute = cycle_wait_type t then
           (let cycle_elapsed = now - prev_cycle_time_point t in
            if cycle_elapsed \<ge> cycle_wait_period t then 0
            else cycle_wait_period t - cycle_elapsed)
         else sleep_period t)
      else sleep_period t)"

definition cycle_wait_loop :: "TimePoint \<Rightarrow> UThread \<Rightarrow> UThread" where
  "cycle_wait_loop now t =
     (let t1 = t\<lparr>sleep_period := cycle_sleep_period now t\<rparr> in
      if sleep_period t1 \<noteq> 0 then t1\<lparr>cycle_wait_changed := False, pc := CycleWaitPark\<rparr>
      else ProcState_apply (t1\<lparr>prev_cycle_time_point := now\<rparr>))"

definition cycle_wait_woken :: "TimePoint \<Rightarrow> cv_status \<Rightarrow> UThread \<Rightarrow> UThread" where
  "cycle_wait_woken now waited t =
     (let cond_signalled =
            (if kIndefinite = cycle_wait_type t then True
             else is_success (StateCondWaitFor (sleep_period t) now waited t))
      in
      if cond_signalled then
        (let t1 = (if kInvalid \<noteq> cycle_wait_skip_orig_state t then
                     (if kInvalid = requested_state t
                      then t\<lparr>cycle_wait_skip_count := cycle_wait_skip_count t - 1\<rparr>
                      else t\<lparr>cycle_wait_skip_orig_state := kInvalid,
                             cycle_wait_skip_count := 0\<rparr>)
                   else t)
         in
         if cycle_wait_changed t1 then
           (let t2 = t1\<lparr>cycle_wait_changed := False\<rparr> in
            if kRelative = cycle_wait_type t2 \<or> kInvalid \<noteq> cycle_wait_skip_orig_state t2
            then ProcState_apply (t2\<lparr>prev_cycle_time_point := now\<rparr>)
            else cycle_wait_loop now t2)
         else ProcState_apply (t1\<lparr>prev_cycle_time_point := now\<rparr>))
      else ConsiderPause_locked AtTimeout
             (t\<lparr>prev_cycle_time_point := now, is_between_cycles := False\<rparr>))"

definition ProcState_wait :: "TimePoint \<Rightarrow> UThread \<Rightarrow> UThread" where
  "ProcState_wait now t =
     (let t1 = t\<lparr>is_between_cycles := True\<rparr> in
      if kInvalid = requested_state t1 then
        (if cycle_wait_period t1 > 0 \<or> kIndefinite = cycle_wait_type t1
         then cycle_wait_loop now t1
         else ConsiderPause_locked AtNoWait (t1\<lparr>is_between_cycles := False\<rparr>))
      else ProcState_apply t1)"

definition ProcState :: "TimePoint \<Rightarrow> UThread \<Rightarrow> UThread" where
  "ProcState now t =
     (let t1 = t\<lparr>cycle_count := cycle_count t + 1, procstate_res := kContinue,
                 handle_state_changed := False, sleep_period := 0\<rparr> in
      if kExiting = state t1 then ConsiderPause_locked AtExiting t1
      else if kInvalid \<noteq> cycle_wait_skip_orig_state t1 then
        (let t2 = notify_all cycle_wait_skip_advance_cond t1 in
         if kInvalid = requested_state t2 then
           (if cycle_wait_skip_count t2 > 0 then ConsiderPause_locked AtSkip t2
            else ProcState_wait now
                   ((if kIdle = cycle_wait_skip_orig_state t2
                     then set_requested_state kIdle t2 else t2)
                    \<lparr>cycle_wait_skip_orig_state := kInvalid\<rparr>))
         else ProcState_wait now
                (t2\<lparr>cycle_wait_skip_orig_state := kInvalid, cycle_wait_skip_count := 0\<rparr>))
      else ProcState_wait now t1)"

text \<open>The parked thread wakes: \<open>waited\<close> is how a timed wait ended.\<close>

definition ProcState_woken :: "TimePoint \<Rightarrow> cv_status \<Rightarrow> UThread \<Rightarrow> UThread" where
  "ProcState_woken now waited t =
     (case pc t of
        CycleWaitPark \<Rightarrow> cycle_wait_woken now waited t
      | IdlePark \<Rightarrow> apply_idle_woken now t
      | BarrierPark \<Rightarrow> ProcState_barrier_woken t
      | PausePark site \<Rightarrow> ConsiderPause_woken site t
      | _ \<Rightarrow> t)"

text \<open>
  The end of \<open>_mainThreadFunc\<close>, after the user's function returned \<open>res\<close>: the
  waiters, if there are any, are woken, the listeners run once more, the state
  becomes \<open>kExited\<close> and the thread object is released.
\<close>

definition mainThreadFunc_exit :: "Result \<Rightarrow> UThread \<Rightarrow> UThread" where
  "mainThreadFunc_exit res t =
     (SetStateInternal kExited
        (invoke_listeners
           ((notify_all go_ready_cond (notify_all idle_ready_cond (notify_all state_ready_cond t)))
              \<lparr>thread_func_result := res\<rparr>)))
       \<lparr>thread := None, pc := Finished\<rparr>"

definition SetSelfExiting :: "ThreadId \<Rightarrow> TimePoint \<Rightarrow> UThread \<Rightarrow> outcome \<times> UThread" where
  "SetSelfExiting caller now t =
     (if \<not> is_current_thread caller t
      then (Returns (Prepend (''UThread::SetSelfExiting() can be invoked only by the UThread process''
                       @ '' on itself'') THREAD_RESTRICTION), t)
      else case RequestState_blocking caller kExiting kOff t of
             (Returns res, t') \<Rightarrow>
               if \<not> res_eq SUCCESS res then (Returns (Prepend ''SetSelfExiting'' res), t')
               else (Returns SUCCESS, ProcState now t')
           | (w, t') \<Rightarrow> (w, t'))"

definition set_cycle_wait_type :: "CycleWait \<Rightarrow> UThread \<Rightarrow> UThread" where
  "set_cycle_wait_type ty t = t\<lparr>cycle_wait_type := ty\<rparr>"

definition set_cycle_wait_period :: "Duration \<Rightarrow> UThread \<Rightarrow> UThread" where
  "set_cycle_wait_period period t = t\<lparr>cycle_wait_period := period\<rparr>"

definition RequestStateMultiple_Prepare :: "UThread \<Rightarrow> UThread" where
  "RequestStateMultiple_Prepare t = t\<lparr>in_progress := True\<rparr>"

section \<open>Sequences of operations\<close>

text \<open>
  One operation is one section under the state lock: a call by some thread up to
  its return or its first wait, a step of the managed thread (a call of
  \<open>ProcState\<close> from the user's function, the end of one of its waits, the return
  of the user's function), or a write of the shared counter of a multi-transition
  by its coordinator or by another participant. \<open>OpRequestState\<close> is a call of
  \<open>RequestState\<close> that gets the state lock at once, \<open>OpRequestStateLocked\<close> one
  that passed its tests earlier and gets the lock now. The sequences are more
  than the program can run: a wait may end without a signal, and calls are let in
  while the thread waits at the barrier, where it keeps the state lock.
\<close>

datatype op =
    OpStart ThreadId Blocking
  | OpRequestState ThreadId State Duration
  | OpRequestStateLocked ThreadId State Duration
  | OpRequestAgain State
  | OpExit ThreadId Blocking
  | OpStateWait ThreadId State Duration
  | OpPause
  | OpUnpause
  | OpSetCycleWaitType CycleWait
  | OpSetCycleWaitPeriod Duration
  | OpRunNCycles int Blocking
  | OpSleep ThreadId Duration
  | OpPrepare
  | OpCounter int
  | OpProcState TimePoint
  | OpWoken TimePoint cv_status
  | OpSetSelfExiting TimePoint
  | OpReturn Result

fun step :: "op \<Rightarrow> UThread \<Rightarrow> UThread" where
  "step (OpStart tid block) t = snd (Start tid block t)"
| "step (OpRequestState caller s tmo) t = snd (RequestState caller s tmo t)"
| "step (OpRequestStateLocked caller s tmo) t = snd (RequestState_locked caller s tmo t)"
| "step (OpRequestAgain s) t = snd (RequestState_again s t)"
| "step (OpExit caller block) t = snd (Exit caller block t)"
| "step (OpStateWait caller s tmo) t = snd (StateWaitFor caller s tmo t)"
| "step OpPause t = snd (Pause t)"
| "step OpUnpause t = snd (Unpause t)"
| "step (OpSetCycleWaitType ty) t = set_cycle_wait_type ty t"
| "step (OpSetCycleWaitPeriod period) t = set_cycle_wait_period period t"
| "step (OpRunNCycles n block) t = snd (RunNCycles n block t)"
| "step (OpSleep caller d) t = t"
| "step OpPrepare t = RequestStateMultiple_Prepare t"
| "step (OpCounter n) t = t\<lparr>pending_count := n\<rparr>"
| "step (OpProcState now) t = (if pc t = Body then ProcState now t else t)"
| "step (OpWoken now waited) t = ProcState_woken now waited t"
| "step (OpSetSelfExiting now) t =
     (case thread t of
        Some tid \<Rightarrow> if pc t = Body then snd (SetSelfExiting tid now t) else t
      | None \<Rightarrow> t)"
| "step (OpReturn res) t = (if pc t = Body then mainThreadFunc_exit res t else t)"

fun run :: "op list \<Rightarrow> UThread \<Rightarrow> UThread" where
  "run [] t = t"
| "run (a # ops) t = run ops (step a t)"

text \<open>The states the thread is in, before the first operation and after each.\<close>

fun states_of :: "op list \<Rightarrow> UThread \<Rightarrow> State list" where
  "states_of [] t = [state t]"
| "states_of (a # ops) t = state t # states_of ops (step a t)"

fun is_Start :: "op \<Rightarrow> bool" where
  "is_Start (OpStart tid block) = True"
| "is_Start a = False"

text \<open>
  The transitions of the state as the specification lists them, and as the code
  makes them.
\<close>

fun claimed_edge :: "State \<Rightarrow> State \<Rightarrow> bool" where
  "claimed_edge kInvalid b = (b = kInit)"
| "claimed_edge kInit b = (b = kIdle)"
| "claimed_edge kIdle b = (b = kGo \<or> b = kExiting)"
| "claimed_edge kGo b = (b = kIdle \<or> b = kExiting)"
| "claimed_edge kExiting b = (b = kExited)"
| "claimed_edge kExited b = False"

fun code_edge :: "State \<Rightarrow> State \<Rightarrow> bool" where
  "code_edge kInvalid b = (b = kInit)"
| "code_edge kInit b = (b = kIdle \<or> b = kGo \<or> b = kExiting \<or> b = kExited)"
| "code_edge kIdle b = (b = kGo \<or> b = kExiting \<or> b = kExited)"
| "code_edge kGo b = (b = kIdle \<or> b = kExiting \<or> b = kExited)"
| "code_edge kExiting b = (b = kExited)"
| "code_edge kExited b = False"

text \<open>A step keeps the state or moves it along an edge.\<close>

definition stays_or :: "(State \<Rightarrow> State \<Rightarrow> bool) \<Rightarrow> State \<Rightarrow> State \<Rightarrow> bool" where
  "stays_or edge a b = (a = b \<or> edge a b)"

text \<open>
  A sequence of operations restarts the thread when it calls \<open>Start\<close> on a
  thread that has exited.
\<close>

fun no_restart :: "op list \<Rightarrow> UThread \<Rightarrow> bool" where
  "no_restart [] t = True"
| "no_restart (a # ops) t =
     ((\<not> is_Start a \<or> state t \<noteq> kExited) \<and> no_restart ops (step a t))"

section \<open>Notions for the statements\<close>

text \<open>The call returned a result equal (by \<open>operator==\<close>) to \<open>r\<close>.\<close>

definition returns :: "Result \<Rightarrow> outcome \<Rightarrow> bool" where
  "returns r oc = (case oc of Returns r' \<Rightarrow> res_eq r' r | _ \<Rightarrow> False)"



text \<open>
  The positions at which the managed thread is neither unborn, nor asleep in the
  cycle wait or in \<open>kIdle\<close>, nor gone.
\<close>

definition quiet :: "pc \<Rightarrow> bool" where
  "quiet p = (p \<noteq> NotStarted \<and> p \<noteq> CycleWaitPark \<and> p \<noteq> IdlePark \<and> p \<noteq> Finished)"

text \<open>
  What holds of a thread after any sequence of operations: without a native
  thread it is unborn or has exited; with one, its state is one of \<open>kInit\<close>,
  \<open>kIdle\<close>, \<open>kGo\<close>, \<open>kExiting\<close>, it sleeps in the cycle wait only when not exiting,
  and it is parked idle only in state \<open>kIdle\<close>.
\<close>

definition well_formed :: "UThread \<Rightarrow> bool" where
  "well_formed t =
     (case thread t of
        None \<Rightarrow> (pc t = NotStarted \<and> state t = kInvalid) \<or> (pc t = Finished \<and> state t = kExited)
      | Some tid \<Rightarrow>
          state t \<noteq> kInvalid \<and> state t \<noteq> kExited \<and> pc t \<noteq> NotStarted \<and> pc t \<noteq> Finished
          \<and> (pc t = CycleWaitPark \<longrightarrow> state t \<noteq> kExiting)
          \<and> (pc t = IdlePark \<longrightarrow> state t = kIdle))"

text \<open>
  What a section of \<open>ProcState\<close> makes of the state and the position, and what a
  call by another thread leaves alone.
\<close>

definition seg :: "UThread \<Rightarrow> UThread \<Rightarrow> bool" where
  "seg t t' =
     (thread t' = thread t \<and>
      ((state t' = state t \<and> quiet (pc t'))
       \<or> (state t \<noteq> kExiting \<and> (state t' = kGo \<or> state t' = kExiting) \<and> quiet (pc t'))
       \<or> (state t \<noteq> kExiting \<and> state t' = kIdle \<and> pc t' = IdlePark)
       \<or> (state t \<noteq> kExiting \<and> state t' = state t \<and> pc t' = CycleWaitPark)))"

definition same :: "UThread \<Rightarrow> UThread \<Rightarrow> bool" where
  "same t t' =
     (state t' = state t \<and> thread t' = thread t \<and> pc t' = pc t
      \<and> cycle_wait_skip_orig_state t' = cycle_wait_skip_orig_state t)"

subsection \<open>Example threads\<close>

text \<open>
  A worker just started without blocking; one parked in \<open>kIdle\<close> after its first
  checkpoint; one running in \<open>kGo\<close>; one that applied an exit request; one that
  has exited; one paused at a checkpoint; one with an
  idle request pending; one that takes part in a multi-transition of two threads
  and has an idle request pending; one with an absolute cycle wait of 1000 ns.
\<close>

definition fresh_worker :: UThread where
  "fresh_worker = run [OpStart 7 kOff] (Init ''worker'' 0)"

definition idle_worker :: UThread where
  "idle_worker = run [OpStart 7 kOn, OpProcState 10] (Init ''worker'' 0)"

definition go_worker :: UThread where
  "go_worker =
     run [OpStart 7 kOn, OpProcState 10, OpRequestState 1 kGo 0, OpWoken 20 no_timeout]
       (Init ''worker'' 0)"

definition exiting_worker :: UThread where
  "exiting_worker = run [OpRequestState 1 kExiting 0, OpProcState 30] go_worker"

definition exited_worker :: UThread where
  "exited_worker = run [OpReturn SUCCESS] exiting_worker"

definition paused_worker :: UThread where
  "paused_worker = run [OpPause, OpProcState 30] go_worker"

definition idle_requested_worker :: UThread where
  "idle_requested_worker = run [OpRequestState 1 kIdle 0] go_worker"

definition go_participant :: UThread where
  "go_participant = run [OpPrepare, OpCounter 2, OpRequestState 1 kIdle 0] go_worker"

definition ticker :: UThread where
  "ticker = run [OpSetCycleWaitPeriod 1000] go_worker"

section \<open>Facts about the model\<close>

lemmas result_defs =
  SUCCESS_CODE_def INVALID_RESULT_CODE_def DEFAULT_ERROR_CODE_def TIMED_OUT_CODE_def
  THREAD_RESTRICTION_CODE_def NOT_INIT_CODE_def INVALID_ARGUMENT_CODE_def SHUTTING_DOWN_CODE_def
  DEADLOCK_AVERTED_CODE_def NOT_IMPLEMENTED_CODE_def STATE_ALREADY_EFFECTIVE_CODE_def
  RESOURCE_UNAVAILABLE_CODE_def INTERRUPTED_OPERATION_CODE_def Result_of_def
  SUCCESS_def INVALID_RESULT_def TIMED_OUT_def THREAD_RESTRICTION_def NOT_INIT_def
  INVALID_ARGUMENT_def SHUTTING_DOWN_def DEADLOCK_AVERTED_def NOT_IMPLEMENTED_def
  STATE_ALREADY_EFFECTIVE_def RESOURCE_UNAVAILABLE_def INTERRUPTED_OPERATION_def
  res_eq_def is_error_def is_success_def has_message_def Prepend_def

lemmas effect_defs =
  emit_def notify_one_def notify_all_def set_requested_state_def SetStateInternal_def
  invoke_listeners_def

lemmas query_defs =
  thread_exists_def is_state_changing_def is_current_thread_def is_available_def

lemmas call_defs =
  Init_def InitThread_def Start_def Pause_def Unpause_def RequestState_locked_def RequestState_def
  RequestState_blocking_def RequestState_again_def Run_def Idle_def state_cond_def
  StateCondWaitUntil_def StateCondWaitFor_def JoinInternal_def StateWaitFor_loop_def
  StateWaitFor_def StateWaitFor_woken_def StateWait_def RequestState_woken_def
  Exit_wait_def Exit_def RunNCycles_def RunOneCycle_def Sleep_def
  Duration_Min_def TimePoint_Min_def

lemmas checkpoint_defs =
  ProcState_return_def ConsiderPause_locked_def ConsiderPause_woken_def ProcState_finish_def
  Clear_def ProcState_barrier_def ProcState_barrier_woken_def apply_go_def apply_idle_def
  apply_exiting_def apply_loop_def ProcState_apply_def apply_idle_woken_def
  cycle_sleep_period_def cycle_wait_loop_def cycle_wait_woken_def ProcState_wait_def
  ProcState_def ProcState_woken_def mainThreadFunc_exit_def SetSelfExiting_def
  set_cycle_wait_type_def set_cycle_wait_period_def RequestStateMultiple_Prepare_def

lemmas example_defs =
  fresh_worker_def idle_worker_def go_worker_def exiting_worker_def
  exited_worker_def paused_worker_def idle_requested_worker_def go_participant_def ticker_def

lemmas all_defs = result_defs effect_defs query_defs call_defs checkpoint_defs returns_def

lemma examples_state:
  "state fresh_worker = kInit \<and> pc fresh_worker = Body \<and> requested_state fresh_worker = kIdle"
  "state idle_worker = kIdle \<and> pc idle_worker = IdlePark \<and> thread idle_worker = Some 7"
  "state go_worker = kGo \<and> pc go_worker = Body \<and> thread go_worker = Some 7"
  "state exiting_worker = kExiting \<and> pc exiting_worker = Body \<and> thread exiting_worker = Some 7"
  "state exited_worker = kExited \<and> pc exited_worker = Finished \<and> thread exited_worker = None"
  "state paused_worker = kGo \<and> pc paused_worker = PausePark AtNoWait \<and> is_paused paused_worker"
  by (simp_all add: example_defs all_defs)

subsection \<open>Sections of the checkpoint\<close>

lemma quiet_simps:
  "quiet Body" "quiet (PausePark k)" "quiet BarrierPark" "quiet Stuck"
  "\<not> quiet CycleWaitPark" "\<not> quiet IdlePark" "\<not> quiet Finished" "\<not> quiet NotStarted"
  by (simp_all add: quiet_def)

lemma after_pause_seg: "state (after_pause k t) = state t \<and> pc (after_pause k t) = Body \<and> thread (after_pause k t) = thread t"
  by (cases k) (simp_all add: ProcState_return_def)

lemma ConsiderPause_seg:
  "state (ConsiderPause_locked k t) = state t \<and> quiet (pc (ConsiderPause_locked k t))
   \<and> thread (ConsiderPause_locked k t) = thread t"
  by (simp add: ConsiderPause_locked_def after_pause_seg quiet_simps effect_defs)

lemma ConsiderPause_woken_seg:
  "state (ConsiderPause_woken k t) = state t \<and> quiet (pc (ConsiderPause_woken k t))
   \<and> thread (ConsiderPause_woken k t) = thread t"
  by (simp add: ConsiderPause_woken_def after_pause_seg quiet_simps)

lemma finish_seg:
  "state (ProcState_finish t) = state t \<and> quiet (pc (ProcState_finish t))
   \<and> thread (ProcState_finish t) = thread t"
  by (simp add: ProcState_finish_def ConsiderPause_seg effect_defs Let_def)

lemma barrier_seg:
  "state (ProcState_barrier t) = state t \<and> quiet (pc (ProcState_barrier t))
   \<and> thread (ProcState_barrier t) = thread t"
  by (simp add: ProcState_barrier_def finish_seg effect_defs Let_def Clear_def quiet_simps)

lemma barrier_woken_seg:
  "state (ProcState_barrier_woken t) = state t \<and> quiet (pc (ProcState_barrier_woken t))
   \<and> thread (ProcState_barrier_woken t) = thread t"
  by (simp add: ProcState_barrier_woken_def finish_seg Clear_def)

lemma seg_quiet: "state t' = state t \<Longrightarrow> thread t' = thread t \<Longrightarrow> quiet (pc t') \<Longrightarrow> seg t t'"
  by (simp add: seg_def)

lemma seg_park:
  "state t \<noteq> kExiting \<Longrightarrow> state t' = state t \<Longrightarrow> thread t' = thread t \<Longrightarrow> pc t' = CycleWaitPark
   \<Longrightarrow> seg t t'"
  by (simp add: seg_def)

lemma seg_from: "seg t' t'' \<Longrightarrow> state t' = state t \<Longrightarrow> thread t' = thread t \<Longrightarrow> seg t t''"
  by (simp add: seg_def)

lemma ConsiderPause_seg':
  "state t' = state t \<Longrightarrow> thread t' = thread t \<Longrightarrow> seg t (ConsiderPause_locked k t')"
  by (rule seg_quiet) (simp_all add: ConsiderPause_seg)

lemma barrier_seg':
  "state t' = state t \<Longrightarrow> thread t' = thread t \<Longrightarrow> seg t (ProcState_barrier t')"
  by (rule seg_quiet) (simp_all add: barrier_seg)

lemma apply_loop_seg: "state t \<noteq> kExiting \<Longrightarrow> seg t (apply_loop t)"
  by (simp add: seg_def apply_loop_def barrier_seg apply_go_def apply_idle_def apply_exiting_def
      effect_defs quiet_simps split: State.splits)

lemma apply_loop_seg':
  "state t' = state t \<Longrightarrow> thread t' = thread t \<Longrightarrow> state t \<noteq> kExiting \<Longrightarrow> seg t (apply_loop t')"
  by (rule seg_from [OF apply_loop_seg]) simp_all

lemma apply_seg:
  "state t' = state t \<Longrightarrow> thread t' = thread t \<Longrightarrow> state t \<noteq> kExiting
   \<Longrightarrow> seg t (ProcState_apply t')"
  by (simp add: ProcState_apply_def apply_loop_seg' barrier_seg' effect_defs)

lemma cycle_wait_loop_seg:
  "state t' = state t \<Longrightarrow> thread t' = thread t \<Longrightarrow> state t \<noteq> kExiting
   \<Longrightarrow> seg t (cycle_wait_loop now t')"
  by (simp add: cycle_wait_loop_def Let_def apply_seg seg_park)

lemma apply_idle_woken_seg: "state t \<noteq> kExiting \<Longrightarrow> seg t (apply_idle_woken now t)"
  by (simp add: apply_idle_woken_def Let_def apply_loop_seg')

lemma cycle_wait_woken_seg: "state t \<noteq> kExiting \<Longrightarrow> seg t (cycle_wait_woken now waited t)"
  by (simp add: cycle_wait_woken_def Let_def apply_seg cycle_wait_loop_seg ConsiderPause_seg')

lemma ProcState_wait_seg:
  "state t' = state t \<Longrightarrow> thread t' = thread t \<Longrightarrow> state t \<noteq> kExiting
   \<Longrightarrow> seg t (ProcState_wait now t')"
  by (simp add: ProcState_wait_def Let_def apply_seg cycle_wait_loop_seg ConsiderPause_seg')

lemma ProcState_seg: "seg t (ProcState now t)"
  by (simp add: ProcState_def Let_def ProcState_wait_seg ConsiderPause_seg' effect_defs)

lemma ProcState_woken_seg:
  assumes "well_formed t" and "thread t \<noteq> None"
  shows "seg t (ProcState_woken now waited t)"
proof (cases "pc t")
  case CycleWaitPark
  with assms have "state t \<noteq> kExiting" by (auto simp add: well_formed_def)
  with CycleWaitPark show ?thesis by (simp add: ProcState_woken_def cycle_wait_woken_seg)
next
  case IdlePark
  with assms have "state t \<noteq> kExiting" by (auto simp add: well_formed_def)
  with IdlePark show ?thesis by (simp add: ProcState_woken_def apply_idle_woken_seg)
next
  case BarrierPark
  then show ?thesis
    by (simp add: ProcState_woken_def seg_quiet barrier_woken_seg)
next
  case (PausePark site)
  then show ?thesis
    by (simp add: ProcState_woken_def seg_quiet ConsiderPause_woken_seg)
next
  case NotStarted
  with assms show ?thesis by (auto simp add: well_formed_def)
next
  case Finished
  with assms show ?thesis by (auto simp add: well_formed_def)
next
  case Body
  then show ?thesis by (simp add: ProcState_woken_def seg_quiet quiet_simps)
next
  case Stuck
  then show ?thesis by (simp add: ProcState_woken_def seg_quiet quiet_simps)
qed

lemma seg_inv: "well_formed t \<Longrightarrow> thread t \<noteq> None \<Longrightarrow> seg t t' \<Longrightarrow>
  well_formed t' \<and> stays_or code_edge (state t) (state t')"
  by (cases "state t") (auto simp add: well_formed_def seg_def stays_or_def quiet_def)

subsection \<open>Calls that leave the state, the thread and its position alone\<close>

lemma same_inv: "well_formed t \<Longrightarrow> same t t' \<Longrightarrow> well_formed t' \<and> stays_or code_edge (state t) (state t')"
  by (auto simp add: same_def well_formed_def stays_or_def split: option.splits)

lemma same_trans: "same t t' \<Longrightarrow> same t' t'' \<Longrightarrow> same t t''"
  by (simp add: same_def)

lemma same_refl: "same t t"
  by (simp add: same_def)

lemma RequestState_locked_same: "same t (snd (RequestState_locked caller s tmo t))"
  by (simp add: same_def RequestState_locked_def Unpause_def effect_defs Let_def)

lemma RequestState_same: "same t (snd (RequestState caller s tmo t))"
  by (simp add: RequestState_def RequestState_locked_same) (simp add: same_def)

lemma RequestState_again_same: "same t (snd (RequestState_again s t))"
  by (simp add: same_def RequestState_again_def effect_defs)

lemma StateWaitFor_same: "same t (snd (StateWaitFor caller s tmo t))"
  by (simp add: same_def StateWaitFor_def StateWaitFor_loop_def JoinInternal_def)

lemma Exit_wait_same: "same t (snd (Exit_wait caller block t))"
proof (cases "StateWait caller kExited t")
  case (Pair oc t')
  then have "same t t'"
    using StateWaitFor_same [of t caller kExited Duration_Min] by (simp add: StateWait_def)
  with Pair show ?thesis
    by (cases oc) (simp_all add: Exit_wait_def same_refl)
qed

lemma RequestState_blocking_same: "same t (snd (RequestState_blocking caller s block t))"
  by (simp add: RequestState_blocking_def RequestState_same)

lemma Exit_same: "same t (snd (Exit caller block t))"
proof (cases "RequestState_blocking caller kExiting block t")
  case (Pair oc t')
  then have r: "same t t'"
    using RequestState_blocking_same [of t caller kExiting block] by simp
  then have w: "same t (snd (Exit_wait caller block t'))"
    by (rule same_trans) (rule Exit_wait_same)
  from Pair r w show ?thesis
    by (cases oc) (simp_all add: Exit_def same_refl Exit_wait_same)
qed

lemma Pause_same: "same t (snd (Pause t))"
  by (simp add: same_def Pause_def Let_def)

lemma Unpause_same: "same t (snd (Unpause t))"
  by (simp add: same_def Unpause_def effect_defs)

lemma mainThreadFunc_exit_inv:
  "well_formed t \<Longrightarrow> pc t = Body \<Longrightarrow>
   well_formed (mainThreadFunc_exit res t) \<and> stays_or code_edge (state t) (state (mainThreadFunc_exit res t))"
  by (cases "state t") (auto simp add: well_formed_def mainThreadFunc_exit_def effect_defs stays_or_def split: option.splits)

lemma Start_inv:
  "well_formed t \<Longrightarrow> state t \<noteq> kExited \<Longrightarrow>
   well_formed (snd (Start tid block t)) \<and> stays_or code_edge (state t) (state (snd (Start tid block t)))"
  by (auto simp add: well_formed_def Start_def InitThread_def thread_exists_def effect_defs stays_or_def split: option.splits)

lemma SetSelfExiting_inv:
  assumes "well_formed t" and "thread t = Some tid"
  shows "well_formed (snd (SetSelfExiting tid now t))
         \<and> stays_or code_edge (state t) (state (snd (SetSelfExiting tid now t)))"
proof (cases "RequestState_blocking tid kExiting kOff t")
  case (Pair oc t')
  then have s: "same t t'"
    using RequestState_blocking_same [of t tid kExiting kOff] by simp
  with assms have i: "well_formed t'" and th: "thread t' \<noteq> None" and st: "state t' = state t"
    by (simp_all add: same_inv same_def)
  have p: "well_formed (ProcState now t') \<and> stays_or code_edge (state t') (state (ProcState now t'))"
    by (rule seg_inv [OF i th ProcState_seg])
  from assms have c: "is_current_thread tid t" by (simp add: is_current_thread_def)
  from Pair c p st i s assms(1) show ?thesis
    by (cases oc) (simp_all add: SetSelfExiting_def same_inv stays_or_def)
qed

lemma step_inv:
  assumes "well_formed t" and "\<not> is_Start a \<or> state t \<noteq> kExited"
  shows "well_formed (step a t) \<and> stays_or code_edge (state t) (state (step a t))"
proof (cases a)
  case (OpStart tid block)
  with assms show ?thesis by (simp add: Start_inv)
next
  case (OpRequestState caller s tmo)
  with assms show ?thesis by (simp add: same_inv RequestState_same)
next
  case (OpRequestStateLocked caller s tmo)
  with assms show ?thesis by (simp add: same_inv RequestState_locked_same)
next
  case (OpRequestAgain s)
  with assms show ?thesis by (simp add: same_inv RequestState_again_same)
next
  case (OpExit caller block)
  with assms show ?thesis by (simp add: same_inv Exit_same)
next
  case (OpStateWait caller s tmo)
  with assms show ?thesis by (simp add: same_inv StateWaitFor_same)
next
  case OpPause
  with assms show ?thesis by (simp add: same_inv Pause_same)
next
  case OpUnpause
  with assms show ?thesis by (simp add: same_inv Unpause_same)
next
  case (OpSetCycleWaitType ty)
  with assms show ?thesis by (simp add: same_inv same_def set_cycle_wait_type_def)
next
  case (OpSetCycleWaitPeriod period)
  with assms show ?thesis by (simp add: same_inv same_def set_cycle_wait_period_def)
next
  case (OpRunNCycles n block)
  with assms show ?thesis by (simp add: same_inv same_def RunNCycles_def)
next
  case (OpSleep caller d)
  with assms show ?thesis by (simp add: same_inv same_def)
next
  case OpPrepare
  with assms show ?thesis by (simp add: same_inv same_def RequestStateMultiple_Prepare_def)
next
  case (OpCounter n)
  with assms show ?thesis by (simp add: same_inv same_def)
next
  case (OpProcState now)
  show ?thesis
  proof (cases "pc t = Body")
    case True
    with assms have "thread t \<noteq> None" by (auto simp add: well_formed_def split: option.splits)
    with assms OpProcState True show ?thesis by (simp add: seg_inv ProcState_seg)
  next
    case False
    with assms OpProcState show ?thesis by (simp add: same_inv same_def)
  qed
next
  case (OpWoken now waited)
  show ?thesis
  proof (cases "thread t")
    case None
    with assms have "pc t = NotStarted \<or> pc t = Finished" by (auto simp add: well_formed_def)
    then have "ProcState_woken now waited t = t" by (auto simp add: ProcState_woken_def)
    with assms OpWoken show ?thesis by (simp add: same_inv same_def)
  next
    case (Some tid)
    with assms OpWoken show ?thesis by (simp add: seg_inv ProcState_woken_seg)
  qed
next
  case (OpSetSelfExiting now)
  show ?thesis
  proof (cases "thread t")
    case None
    with assms OpSetSelfExiting show ?thesis by (simp add: same_inv same_def)
  next
    case (Some tid)
    with assms OpSetSelfExiting SetSelfExiting_inv [of t tid now] show ?thesis
      by (simp add: same_inv same_def)
  qed
next
  case (OpReturn res)
  with assms show ?thesis by (simp add: mainThreadFunc_exit_inv same_inv same_def)
qed

lemma run_append: "run (ops1 @ ops2) t = run ops2 (run ops1 t)"
  by (induction ops1 arbitrary: t) simp_all

lemma no_restart_append:
  "no_restart (ops1 @ ops2) t = (no_restart ops1 t \<and> no_restart ops2 (run ops1 t))"
  by (induction ops1 arbitrary: t) auto

lemma hd_states_of: "hd (states_of ops t) = state t"
  by (cases ops) simp_all

lemma states_of_nonempty: "states_of ops t \<noteq> []"
  by (cases ops) simp_all

lemma run_inv: "well_formed t \<Longrightarrow> no_restart ops t \<Longrightarrow> well_formed (run ops t)"
  by (induction ops arbitrary: t) (simp_all add: step_inv)

lemma states_of_edges:
  "well_formed t \<Longrightarrow> no_restart ops t \<Longrightarrow> successively (stays_or code_edge) (states_of ops t)"
proof (induction ops arbitrary: t)
  case Nil
  then show ?case by simp
next
  case (Cons a ops)
  then have "well_formed (step a t)" and "stays_or code_edge (state t) (state (step a t))"
    and "no_restart ops (step a t)"
    by (simp_all add: step_inv)
  with Cons.IH [of "step a t"] show ?case
    by (simp add: successively_Cons hd_states_of states_of_nonempty)
qed

lemma down_stays:
  "well_formed t \<Longrightarrow> no_restart ops t \<Longrightarrow>
   (state t = kExiting \<or> state t = kExited \<longrightarrow> state (run ops t) = kExiting \<or> state (run ops t) = kExited)
   \<and> (state t = kExited \<longrightarrow> state (run ops t) = kExited)"
proof (induction ops arbitrary: t)
  case Nil
  then show ?case by simp
next
  case (Cons a ops)
  then have i: "well_formed (step a t)" and e: "stays_or code_edge (state t) (state (step a t))"
    and n: "no_restart ops (step a t)"
    by (simp_all add: step_inv)
  from e have "state t = kExiting \<or> state t = kExited \<longrightarrow> state (step a t) = kExiting \<or> state (step a t) = kExited"
    and "state t = kExited \<longrightarrow> state (step a t) = kExited"
    by (auto simp add: stays_or_def)
  with Cons.IH [OF i n] show ?case by auto
qed

lemma inv_Init: "well_formed (Init nm created)"
  by (simp add: well_formed_def Init_def)

subsection \<open>What a checkpoint logs and keeps\<close>


















lemma after_pause_keeps:
  "state (after_pause k t) = state t \<and> requested_state (after_pause k t) = requested_state t
   \<and> pending_count (after_pause k t) = pending_count t
   \<and> prev_cycle_time_point (after_pause k t) = prev_cycle_time_point t"
  by (cases k) (simp_all add: ProcState_return_def)

lemma ConsiderPause_keeps:
  "state (ConsiderPause_locked k t) = state t
   \<and> requested_state (ConsiderPause_locked k t) = requested_state t
   \<and> pending_count (ConsiderPause_locked k t) = pending_count t
   \<and> prev_cycle_time_point (ConsiderPause_locked k t) = prev_cycle_time_point t"
  by (simp add: ConsiderPause_locked_def after_pause_keeps effect_defs)

lemma finish_keeps:
  "state (ProcState_finish t) = state t
   \<and> requested_state (ProcState_finish t) = requested_state t
   \<and> pending_count (ProcState_finish t) = pending_count t
   \<and> prev_cycle_time_point (ProcState_finish t) = prev_cycle_time_point t"
  by (simp add: ProcState_finish_def Let_def ConsiderPause_keeps effect_defs)

lemma barrier_keeps:
  "state (ProcState_barrier t) = state t
   \<and> requested_state (ProcState_barrier t) = requested_state t
   \<and> pending_count (ProcState_barrier t) = (if in_progress t then pending_count t - 1 else pending_count t)
   \<and> prev_cycle_time_point (ProcState_barrier t) = prev_cycle_time_point t"
  by (simp add: ProcState_barrier_def Let_def finish_keeps effect_defs Clear_def)


lemma apply_keeps_prev: "prev_cycle_time_point (ProcState_apply t) = prev_cycle_time_point t"
  by (cases "requested_state t")
     (simp_all add: ProcState_apply_def apply_loop_def apply_idle_def apply_go_def
        apply_exiting_def barrier_keeps effect_defs)







lemma apply_not_cycle_park: "pc (ProcState_apply t) \<noteq> CycleWaitPark"
proof -
  have "quiet (pc (ProcState_barrier t'))" for t' by (simp add: barrier_seg)
  then have b: "pc (ProcState_barrier t') \<noteq> CycleWaitPark" for t' by (auto simp add: quiet_def)
  show ?thesis
    by (cases "requested_state t")
       (simp_all add: ProcState_apply_def apply_loop_def apply_idle_def b effect_defs)
qed

lemma ConsiderPause_not_cycle_park: "pc (ConsiderPause_locked k t) \<noteq> CycleWaitPark"
  using ConsiderPause_seg [of k t] by (auto simp add: quiet_def)


lemma cycle_wait_loop_absolute:
  assumes "cycle_wait_type t = kAbsolute"
  shows "(pc (cycle_wait_loop now t) = CycleWaitPark) = (now - prev_cycle_time_point t < cycle_wait_period t)
    \<and> (now - prev_cycle_time_point t < cycle_wait_period t \<longrightarrow>
         sleep_period (cycle_wait_loop now t) = cycle_wait_period t - (now - prev_cycle_time_point t))
    \<and> (now - prev_cycle_time_point t \<ge> cycle_wait_period t \<longrightarrow>
         prev_cycle_time_point (cycle_wait_loop now t) = now)"
  using assms
  by (simp add: cycle_wait_loop_def cycle_sleep_period_def Let_def apply_not_cycle_park
      apply_keeps_prev)


lemma cycle_wait_woken_sets_prev:
  "\<not> cycle_wait_changed t \<Longrightarrow>
   prev_cycle_time_point (cycle_wait_woken now waited t) = now"
  by (simp add: cycle_wait_woken_def Let_def apply_keeps_prev ConsiderPause_keeps)

text \<open>
  No operation arms the cycle skip: \<open>RunNCycles\<close>, the one place that would, returns
  before it does.
\<close>

lemma after_pause_skip:
  "cycle_wait_skip_orig_state (after_pause k t) = cycle_wait_skip_orig_state t"
  by (cases k) (simp_all add: ProcState_return_def)

lemma ConsiderPause_skip:
  "cycle_wait_skip_orig_state (ConsiderPause_locked k t) = cycle_wait_skip_orig_state t"
  by (simp add: ConsiderPause_locked_def after_pause_skip effect_defs)

lemma finish_skip:
  "cycle_wait_skip_orig_state (ProcState_finish t) = cycle_wait_skip_orig_state t"
  by (simp add: ProcState_finish_def Let_def ConsiderPause_skip effect_defs)

lemma barrier_skip:
  "cycle_wait_skip_orig_state (ProcState_barrier t) = cycle_wait_skip_orig_state t"
  by (simp add: ProcState_barrier_def Let_def finish_skip effect_defs Clear_def)

lemma apply_loop_skip:
  "cycle_wait_skip_orig_state (apply_loop t) = cycle_wait_skip_orig_state t"
  by (cases "requested_state t")
     (simp_all add: apply_loop_def apply_go_def apply_idle_def apply_exiting_def barrier_skip
        effect_defs)

lemma apply_skip:
  "cycle_wait_skip_orig_state (ProcState_apply t) = cycle_wait_skip_orig_state t"
  by (simp add: ProcState_apply_def apply_loop_skip barrier_skip effect_defs)

lemma cycle_wait_loop_skip:
  "cycle_wait_skip_orig_state (cycle_wait_loop now t) = cycle_wait_skip_orig_state t"
  by (simp add: cycle_wait_loop_def Let_def apply_skip)

lemma ProcState_woken_skip:
  "cycle_wait_skip_orig_state t = kInvalid \<Longrightarrow>
   cycle_wait_skip_orig_state (ProcState_woken now waited t) = kInvalid"
  by (cases "pc t")
     (simp_all add: ProcState_woken_def cycle_wait_woken_def apply_idle_woken_def
        ProcState_barrier_woken_def ConsiderPause_woken_def Let_def apply_skip apply_loop_skip
        cycle_wait_loop_skip ConsiderPause_skip finish_skip after_pause_skip Clear_def)

lemma ProcState_skip:
  "cycle_wait_skip_orig_state t = kInvalid \<Longrightarrow>
   cycle_wait_skip_orig_state (ProcState now t) = kInvalid"
  by (simp add: ProcState_def ProcState_wait_def Let_def apply_skip cycle_wait_loop_skip
      ConsiderPause_skip)

lemma step_skip:
  assumes "cycle_wait_skip_orig_state t = kInvalid"
  shows "cycle_wait_skip_orig_state (step a t) = kInvalid"
proof (cases a)
  case (OpStart tid block)
  with assms show ?thesis by (simp add: Start_def InitThread_def effect_defs)
next
  case (OpRequestState caller s tmo)
  with assms RequestState_same [of t caller s tmo] show ?thesis by (simp add: same_def)
next
  case (OpRequestStateLocked caller s tmo)
  with assms RequestState_locked_same [of t caller s tmo] show ?thesis by (simp add: same_def)
next
  case (OpRequestAgain s)
  with assms RequestState_again_same [of t s] show ?thesis by (simp add: same_def)
next
  case (OpExit caller block)
  with assms Exit_same [of t caller block] show ?thesis by (simp add: same_def)
next
  case (OpStateWait caller s tmo)
  with assms StateWaitFor_same [of t caller s tmo] show ?thesis by (simp add: same_def)
next
  case OpPause
  with assms Pause_same [of t] show ?thesis by (simp add: same_def)
next
  case OpUnpause
  with assms Unpause_same [of t] show ?thesis by (simp add: same_def)
next
  case (OpSetCycleWaitType ty)
  with assms show ?thesis by (simp add: set_cycle_wait_type_def)
next
  case (OpSetCycleWaitPeriod period)
  with assms show ?thesis by (simp add: set_cycle_wait_period_def)
next
  case (OpRunNCycles n block)
  with assms show ?thesis by (simp add: RunNCycles_def)
next
  case (OpSleep caller d)
  with assms show ?thesis by simp
next
  case OpPrepare
  with assms show ?thesis by (simp add: RequestStateMultiple_Prepare_def)
next
  case (OpCounter n)
  with assms show ?thesis by simp
next
  case (OpProcState now)
  with assms show ?thesis by (simp add: ProcState_skip)
next
  case (OpWoken now waited)
  with assms show ?thesis by (simp add: ProcState_woken_skip)
next
  case (OpSetSelfExiting now)
  show ?thesis
  proof (cases "RequestState_blocking (the (thread t)) kExiting kOff t")
    case (Pair oc t')
    with assms RequestState_blocking_same [of t "the (thread t)" kExiting kOff]
    have "cycle_wait_skip_orig_state t' = kInvalid" by (simp add: same_def)
    with Pair assms OpSetSelfExiting show ?thesis
      by (cases oc) (auto simp add: SetSelfExiting_def ProcState_skip split: option.splits)
  qed
next
  case (OpReturn res)
  with assms show ?thesis by (simp add: mainThreadFunc_exit_def effect_defs)
qed

lemma cycle_skip_never_armed:
  "cycle_wait_skip_orig_state (run ops (Init nm created)) = kInvalid"
proof -
  have "cycle_wait_skip_orig_state t = kInvalid \<Longrightarrow>
        cycle_wait_skip_orig_state (run ops t) = kInvalid" for t
    by (induction ops arbitrary: t) (simp_all add: step_skip)
  then show ?thesis by (simp add: Init_def)
qed

text \<open>Without a multi-transition the same checkpoint parks the thread in \<open>kIdle\<close>.\<close>

lemma idle_request_applied:
  "\<not> in_progress t \<Longrightarrow> requested_state t = kIdle \<Longrightarrow> state t \<noteq> kIdle
   \<Longrightarrow> state t \<noteq> kExiting \<Longrightarrow>
   state (ProcState now t) = kIdle \<and> pc (ProcState now t) = IdlePark"
  by (simp add: ProcState_def ProcState_wait_def ProcState_apply_def apply_loop_def
      apply_idle_def Let_def effect_defs)

lemma exited_without_thread:
  "no_restart ops (Init nm created) \<Longrightarrow> state (run ops (Init nm created)) = kExited \<Longrightarrow>
   \<not> thread_exists (run ops (Init nm created))"
  using run_inv [OF inv_Init, of ops nm created]
  by (auto simp add: well_formed_def thread_exists_def split: option.splits)

lemma RequestState_not_started:
  "\<not> thread_exists t \<Longrightarrow> returns NOT_INIT (fst (RequestState caller s tmo t))"
  by (simp add: all_defs)

text \<open>
  A call of \<open>RequestState\<close> that begins when the thread has exited finds no thread
  object and answers not-initialized.
\<close>

lemma RequestState_after_exit:
  "no_restart ops (Init nm created) \<Longrightarrow> state (run ops (Init nm created)) = kExited \<Longrightarrow>
   returns NOT_INIT (fst (RequestState caller s tmo (run ops (Init nm created))))"
  by (rule RequestState_not_started) (rule exited_without_thread)

section \<open>The state machine\<close>

text \<open>
  C1. Take a thread as its constructor leaves it and any sequence of operations
  that does not call \<open>Start\<close> on a thread that has exited. Then the state changes
  only along the transitions that \<open>code_edge\<close> lists: from \<open>kInvalid\<close> to \<open>kInit\<close>;
  from \<open>kInit\<close> to \<open>kIdle\<close>, \<open>kGo\<close>, \<open>kExiting\<close> or \<open>kExited\<close>; between \<open>kIdle\<close>
  and \<open>kGo\<close>; from \<open>kIdle\<close> or \<open>kGo\<close> to \<open>kExiting\<close> or \<open>kExited\<close>; from \<open>kExiting\<close>
  to \<open>kExited\<close>. Once the state is \<open>kExiting\<close> or \<open>kExited\<close> it stays one of the
  two, and once it is \<open>kExited\<close> it does not change.
\<close>

theorem state_moves_along_code_edges:
  assumes "no_restart (ops1 @ ops2) (Init nm created)"
  shows "successively (stays_or code_edge) (states_of (ops1 @ ops2) (Init nm created))
    \<and> (state (run ops1 (Init nm created)) = kExiting \<or> state (run ops1 (Init nm created)) = kExited
        \<longrightarrow> state (run (ops1 @ ops2) (Init nm created)) = kExiting
            \<or> state (run (ops1 @ ops2) (Init nm created)) = kExited)
    \<and> (state (run ops1 (Init nm created)) = kExited
        \<longrightarrow> state (run (ops1 @ ops2) (Init nm created)) = kExited)"
proof -
  from assms have n1: "no_restart ops1 (Init nm created)"
    and n2: "no_restart ops2 (run ops1 (Init nm created))"
    by (simp_all add: no_restart_append)
  have i: "well_formed (run ops1 (Init nm created))" by (rule run_inv [OF inv_Init n1])
  from states_of_edges [OF inv_Init assms] down_stays [OF i n2] show ?thesis
    by (simp add: run_append)
qed

text \<open>
  A worker is started, idles, runs, is asked to exit and returns; requests that
  come after the exit request change nothing.
\<close>

theorem state_moves_along_code_edges_witness:
  "no_restart
     ([OpStart 7 kOn, OpProcState 10, OpRequestState 1 kGo 0, OpWoken 20 no_timeout,
       OpRequestState 1 kExiting 0, OpProcState 30]
      @ [OpRequestState 1 kGo 0, OpReturn SUCCESS, OpRequestState 1 kIdle 0, OpProcState 40])
     (Init ''worker'' 0)
   \<and> states_of
       ([OpStart 7 kOn, OpProcState 10, OpRequestState 1 kGo 0, OpWoken 20 no_timeout,
         OpRequestState 1 kExiting 0, OpProcState 30]
        @ [OpRequestState 1 kGo 0, OpReturn SUCCESS, OpRequestState 1 kIdle 0, OpProcState 40])
       (Init ''worker'' 0)
     = [kInvalid, kInit, kIdle, kIdle, kGo, kGo, kExiting, kExiting, kExited, kExited, kExited]
   \<and> successively (stays_or code_edge)
       (states_of
         ([OpStart 7 kOn, OpProcState 10, OpRequestState 1 kGo 0, OpWoken 20 no_timeout,
           OpRequestState 1 kExiting 0, OpProcState 30]
          @ [OpRequestState 1 kGo 0, OpReturn SUCCESS, OpRequestState 1 kIdle 0, OpProcState 40])
         (Init ''worker'' 0))
   \<and> state (run ([OpStart 7 kOn, OpProcState 10, OpRequestState 1 kGo 0, OpWoken 20 no_timeout,
           OpRequestState 1 kExiting 0, OpProcState 30]
          @ [OpRequestState 1 kGo 0, OpReturn SUCCESS, OpRequestState 1 kIdle 0, OpProcState 40])
         (Init ''worker'' 0)) = kExited"
  using state_moves_along_code_edges
    [of "[OpStart 7 kOn, OpProcState 10, OpRequestState 1 kGo 0, OpWoken 20 no_timeout,
          OpRequestState 1 kExiting 0, OpProcState 30]"
        "[OpRequestState 1 kGo 0, OpReturn SUCCESS, OpRequestState 1 kIdle 0, OpProcState 40]"
        "''worker''" 0]
  by (simp add: all_defs)

text \<open>
  The transitions as the specification lists them leave out the one from \<open>kInit\<close>
  to \<open>kGo\<close>: a worker started without blocking is asked to go before its first
  checkpoint, and that checkpoint takes it from \<open>kInit\<close> to \<open>kGo\<close>.
\<close>

theorem claimed_edges_counterexample:
  "no_restart [OpStart 7 kOff, OpRequestState 1 kGo 0, OpProcState 10] (Init ''worker'' 0)
   \<and> states_of [OpStart 7 kOff, OpRequestState 1 kGo 0, OpProcState 10] (Init ''worker'' 0)
     = [kInvalid, kInit, kInit, kGo]
   \<and> \<not> successively (stays_or claimed_edge)
         (states_of [OpStart 7 kOff, OpRequestState 1 kGo 0, OpProcState 10] (Init ''worker'' 0))"
  by (simp add: all_defs stays_or_def)

section \<open>Requests\<close>

text \<open>
  C2. For a started thread in state \<open>kExiting\<close>, \<open>RequestState\<close> returns success
  for the target \<open>kExiting\<close>, the invalid-argument failure for the targets \<open>kInit\<close>
  and \<open>kExited\<close>, and the shutting-down failure for every other target, and
  changes nothing. For a thread in state \<open>kExited\<close>, a call of \<open>RequestState\<close> that
  has passed its tests and takes the state lock returns the resource-unavailable
  failure for every target, and \<open>Exit\<close> returns success; neither changes
  anything.
\<close>

theorem RequestState_exiting_or_exited:
  "(thread_exists t \<and> state t = kExiting \<longrightarrow>
      returns (if s = kExiting then SUCCESS
               else if s = kInit \<or> s = kExited then INVALID_ARGUMENT else SHUTTING_DOWN)
        (fst (RequestState caller s tmo t))
      \<and> snd (RequestState caller s tmo t) = t)
   \<and> (state t = kExited \<longrightarrow>
      returns RESOURCE_UNAVAILABLE (fst (RequestState_locked caller s tmo t))
      \<and> snd (RequestState_locked caller s tmo t) = t
      \<and> returns SUCCESS (fst (Exit caller block t)) \<and> snd (Exit caller block t) = t)"
  by (simp add: all_defs)

theorem RequestState_exiting_or_exited_witness:
  "thread_exists exiting_worker \<and> state exiting_worker = kExiting
   \<and> returns SUCCESS (fst (RequestState 1 kExiting 0 exiting_worker))
   \<and> returns SHUTTING_DOWN (fst (RequestState 1 kGo Duration_Min exiting_worker))
   \<and> state exited_worker = kExited
   \<and> returns RESOURCE_UNAVAILABLE (fst (RequestState_locked 1 kGo 0 exited_worker))
   \<and> returns SUCCESS (fst (Exit 1 kOn exited_worker))"
  using RequestState_exiting_or_exited [where t = exiting_worker and s = kExiting and caller = 1 and tmo = 0]
    RequestState_exiting_or_exited [where t = exiting_worker and s = kGo and caller = 1 and tmo = Duration_Min]
    RequestState_exiting_or_exited [where t = exited_worker and s = kGo and caller = 1 and tmo = 0 and block = kOn]
  by (simp add: example_defs all_defs)

text \<open>An exiting worker asked for \<open>kInit\<close> answers invalid-argument, not shutting-down.\<close>

theorem RequestState_exiting_counterexample:
  "thread_exists exiting_worker \<and> state exiting_worker = kExiting
   \<and> returns INVALID_ARGUMENT (fst (RequestState 1 kInit 0 exiting_worker))
   \<and> \<not> returns SHUTTING_DOWN (fst (RequestState 1 kInit 0 exiting_worker))"
  by (simp add: example_defs all_defs)










section \<open>Cycle stepping and sleep\<close>

text \<open>
  C3. \<open>RunOneCycle\<close> does not run a cycle: for every thread and either blocking
  mode it returns the not-implemented failure of \<open>RunNCycles\<close> at once and leaves
  the thread as it was, so no checkpoint pass is forced and an idle thread stays
  idle and parked. (By \<open>cycle_skip_never_armed\<close> no sequence of operations arms
  the cycle skip that the call was to use.)
\<close>

theorem RunOneCycle_not_implemented:
  "RunOneCycle block t = (Prepend ''UThread::RunNCycles()'' NOT_IMPLEMENTED, t)
   \<and> code (fst (RunOneCycle block t)) = NOT_IMPLEMENTED_CODE
   \<and> \<not> res_eq SUCCESS (fst (RunOneCycle block t))"
  by (simp add: RunOneCycle_def RunNCycles_def result_defs)

text \<open>
  On the idle worker the blocking call does not return success, and the cycle
  count is what it was: no checkpoint pass has run.
\<close>

theorem RunOneCycle_idle_counterexample:
  "thread_exists idle_worker \<and> state idle_worker = kIdle
   \<and> \<not> res_eq SUCCESS (fst (RunOneCycle kOn idle_worker))
   \<and> cycle_count (snd (RunOneCycle kOn idle_worker)) = cycle_count idle_worker"
  by (simp add: example_defs all_defs)

text \<open>
  C5. A sleep of finite length that is cut short by a state request does not
  return the interrupted-operation result: the running worker sleeps for at most
  1 ms with no request pending, \<open>go_cond_\<close> is signalled before the time is up,
  and \<open>Sleep\<close> returns a result with the success code (and the message that the
  sleep was interrupted).
\<close>

theorem Sleep_finite_woken_returns_success:
  "thread go_worker = Some 7 \<and> \<not> is_state_changing go_worker
   \<and> Sleep 7 1000000 40 no_timeout go_worker
       = \<lparr>code = SUCCESS_CODE, message = Some ''Thread sleep was interrupted''\<rparr>
   \<and> res_eq SUCCESS (Sleep 7 1000000 40 no_timeout go_worker)
   \<and> \<not> res_eq INTERRUPTED_OPERATION (Sleep 7 1000000 40 no_timeout go_worker)"
  by (simp add: example_defs all_defs)

text \<open>
  The other two cases are as documented: a request pending at entry, and a sleep
  without limit, give the interrupted-operation result; a finite sleep never does.
\<close>

lemma Sleep_pending:
  "thread t = Some caller \<Longrightarrow> is_state_changing t \<Longrightarrow>
   res_eq INTERRUPTED_OPERATION (Sleep caller d now waited t)"
  by (simp add: all_defs)

lemma Sleep_indefinite:
  "thread t = Some caller \<Longrightarrow>
   res_eq INTERRUPTED_OPERATION (Sleep caller Duration_Min now waited t)"
  by (simp add: all_defs)

lemma Sleep_finite:
  "thread t = Some caller \<Longrightarrow> \<not> is_state_changing t \<Longrightarrow> d \<noteq> Duration_Min \<Longrightarrow>
   res_eq SUCCESS (Sleep caller d now waited t)"
  by (simp add: all_defs)

section \<open>Checkpoints: multi-transition and cycle wait\<close>



text \<open>
  C9. For a thread with the absolute cycle wait, a period \<open>P > 0\<close> and no request
  pending, the sleep that a checkpoint at time \<open>now\<close> computes is \<open>P\<close> minus the
  time since \<open>prev_cycle_time_point\<close>, and zero when that time is at least \<open>P\<close>.
  Whenever the checkpoint sleeps in the cycle wait, it sleeps that long; a thread
  that is not exiting and skips no cycles sleeps exactly when the time is less
  than \<open>P\<close>, and otherwise sets \<open>prev_cycle_time_point\<close> to \<open>now\<close>. The end of a
  cycle sleep sets \<open>prev_cycle_time_point\<close> to the time of waking.
\<close>

theorem absolute_cycle_sleep:
  assumes "cycle_wait_type t = kAbsolute" and "cycle_wait_period t > 0"
    and "requested_state t = kInvalid"
  shows "cycle_sleep_period now t =
      (if now - prev_cycle_time_point t \<ge> cycle_wait_period t then 0
       else cycle_wait_period t - (now - prev_cycle_time_point t))
    \<and> (pc (ProcState now t) = CycleWaitPark \<longrightarrow>
         now - prev_cycle_time_point t < cycle_wait_period t
         \<and> sleep_period (ProcState now t) = cycle_wait_period t - (now - prev_cycle_time_point t))
    \<and> (state t \<noteq> kExiting \<and> cycle_wait_skip_orig_state t = kInvalid \<longrightarrow>
         (pc (ProcState now t) = CycleWaitPark)
           = (now - prev_cycle_time_point t < cycle_wait_period t)
         \<and> (now - prev_cycle_time_point t \<ge> cycle_wait_period t \<longrightarrow>
              prev_cycle_time_point (ProcState now t) = now))
    \<and> (pc u = CycleWaitPark \<and> \<not> cycle_wait_changed u \<longrightarrow>
         prev_cycle_time_point (ProcState_woken woke waited u) = woke)"
  using assms
  by (simp add: cycle_sleep_period_def ProcState_def ProcState_wait_def Let_def
      cycle_wait_loop_absolute ConsiderPause_not_cycle_park apply_not_cycle_park effect_defs
      ProcState_woken_def cycle_wait_woken_sets_prev)

text \<open>
  The ticker has a period of 1000 ns and woke last at time 20. A checkpoint at
  time 300 sleeps for 720 ns and wakes at 1020; one at time 1500 does not sleep.
\<close>

theorem absolute_cycle_sleep_witness:
  "cycle_wait_type ticker = kAbsolute \<and> 0 < cycle_wait_period ticker
   \<and> requested_state ticker = kInvalid \<and> prev_cycle_time_point ticker = 20
   \<and> pc (ProcState 300 ticker) = CycleWaitPark
   \<and> sleep_period (ProcState 300 ticker) = 720
   \<and> prev_cycle_time_point (ProcState_woken 1020 timeout (ProcState 300 ticker)) = 1020
   \<and> cycle_sleep_period 1500 ticker = 0
   \<and> pc (ProcState 1500 ticker) = Body
   \<and> prev_cycle_time_point (ProcState 1500 ticker) = 1500"
  using absolute_cycle_sleep [of ticker 300 "ProcState 300 ticker" 1020 timeout]
    absolute_cycle_sleep [of ticker 1500 "ProcState 300 ticker" 1020 timeout]
  by (simp add: example_defs all_defs)

end
